theory Spec2Isabelle
  imports Complex_Main "HOL-Library.Sublist" "HOL-Library.Code_Target_Numeral"
begin

section \<open>Strings and the regular expressions of the source\<close>

text \<open>
  A JavaScript string is a sequence of UTF-16 code units. It is modelled by \<open>string\<close>,
  one \<open>char\<close> per code unit, which covers the code units below 256. The character
  classes are the ones of ECMAScript restricted to that range.
\<close>

definition is_digit :: "char \<Rightarrow> bool" where
  "is_digit c = (c \<in> set ''0123456789'')"

definition is_word :: "char \<Rightarrow> bool" where
  \<comment> \<open>the class \<open>\w\<close>, that is \<open>[A-Za-z0-9_]\<close>\<close>
  "is_word c = (c \<in> set ''abcdefghijklmnopqrstuvwxyzABCDEFGHIJKLMNOPQRSTUVWXYZ0123456789_'')"

definition is_space :: "char \<Rightarrow> bool" where
  \<comment> \<open>the class \<open>\s\<close>: TAB, LF, VT, FF, CR, SP, NBSP; also what \<open>trim\<close> strips\<close>
  "is_space c = ((of_char c :: nat) \<in> {9, 10, 11, 12, 13, 32, 160})"

definition is_dot :: "char \<Rightarrow> bool" where
  \<comment> \<open>the class \<open>.\<close> (no flag): anything but a line terminator\<close>
  "is_dot c = ((of_char c :: nat) \<notin> {10, 13})"

definition is_quote :: "char \<Rightarrow> bool" where
  \<comment> \<open>the class \<open>['"]\<close>\<close>
  "is_quote c = (c = CHR 0x27 \<or> c = CHR 0x22)"

definition is_path_char :: "char \<Rightarrow> bool" where
  \<comment> \<open>the class \<open>[a-zA-Z0-9_.]\<close>, which is also \<open>[\w.]\<close>\<close>
  "is_path_char c = (is_word c \<or> c = CHR ''.'')"

definition str_trim :: "string \<Rightarrow> string" where
  \<comment> \<open>\<open>String.prototype.trim\<close>\<close>
  "str_trim s = rev (dropWhile is_space (rev (dropWhile is_space s)))"

fun str_includes :: "string \<Rightarrow> string \<Rightarrow> bool" where
  \<comment> \<open>\<open>s.includes(t)\<close>: \<open>t\<close> occurs in \<open>s\<close> as a contiguous substring\<close>
  "str_includes [] t = (t = [])"
| "str_includes (c # cs) t = (if prefix t (c # cs) then True else str_includes cs t)"

function str_split_from :: "string \<Rightarrow> string \<Rightarrow> string \<Rightarrow> string list" where
  "str_split_from sep acc [] = [acc]"
| "str_split_from sep acc (c # cs) =
     (if sep \<noteq> [] \<and> prefix sep (c # cs)
      then acc # str_split_from sep [] (drop (length sep) (c # cs))
      else str_split_from sep (acc @ [c]) cs)"
  by pat_completeness auto
termination
  by (relation "measure (\<lambda>(sep, acc, s). length s)") auto

definition str_split :: "string \<Rightarrow> string \<Rightarrow> string list" where
  \<comment> \<open>\<open>s.split(sep)\<close> with a string separator and no limit: \<open>s\<close> is cut at every
      occurrence of \<open>sep\<close>, found from left to right, an occurrence starting where the
      previous one ended at the earliest; the empty separator cuts between code units\<close>
  "str_split s sep = (if sep = [] then map (\<lambda>c. [c]) s else str_split_from sep [] s)"

definition str_substring :: "string \<Rightarrow> nat \<Rightarrow> nat \<Rightarrow> string" where
  \<comment> \<open>\<open>s.substring(a, b)\<close>: both indices are clamped to the length and swapped when
      \<open>a > b\<close>; a negative index (the source writes \<open>length - 1\<close>) counts as 0, which is
      what truncating subtraction on \<open>nat\<close> gives\<close>
  "str_substring s a b = take (max a b - min a b) (drop (min a b) s)"

definition path_re :: "string \<Rightarrow> bool" where
  \<comment> \<open>\<open>/^[a-zA-Z0-9_.]+$/.test(s)\<close>, and \<open>/^[\w.]+$/.test(s)\<close>, the same language\<close>
  "path_re s = (s \<noteq> [] \<and> list_all is_path_char s)"

definition quoted_re :: "string \<Rightarrow> bool" where
  \<comment> \<open>\<open>/^['"](.*)['"]$/.test(s)\<close>: a quote, any text without a line terminator, a
      quote (the two quotes need not be the same character)\<close>
  "quoted_re s = (2 \<le> length s \<and> is_quote (hd s) \<and> is_quote (last s)
                  \<and> list_all is_dot (butlast (tl s)))"

definition number_re :: "string \<Rightarrow> bool" where
  \<comment> \<open>\<open>/^-?\d+(\.\d+)?$/.test(s)\<close>\<close>
  "number_re s =
     (let t = (case s of [] \<Rightarrow> [] | c # cs \<Rightarrow> if c = CHR ''-'' then cs else s);
          ip = takeWhile is_digit t;
          r = dropWhile is_digit t
      in ip \<noteq> [] \<and>
         (case r of [] \<Rightarrow> True
          | d # fp \<Rightarrow> d = CHR ''.'' \<and> fp \<noteq> [] \<and> list_all is_digit fp))"

subsection \<open>A backtracking matcher for the ternary pattern\<close>

text \<open>
  The pattern \<open>/^\s*(.+?)\s*\?\s*(.+?)\s*:\s*(.+?)\s*$/\<close> is a sequence of literal
  characters, greedy stars of a class and lazy, capturing pluses of a class, anchored at
  both ends. The matcher below tries the repetition counts of each item in the order of
  ECMAScript's backtracking (greedy: the longest run first; lazy: the shortest first) and
  returns the captures of the first complete match.
\<close>

datatype rx_item =
    Lit char
  | StarGreedy "char \<Rightarrow> bool"
  | PlusLazyGroup "char \<Rightarrow> bool"

fun first_some :: "'a option list \<Rightarrow> 'a option" where
  "first_some [] = None"
| "first_some (None # xs) = first_some xs"
| "first_some (Some x # xs) = Some x"

fun rx_match :: "rx_item list \<Rightarrow> string \<Rightarrow> string list option" where
  "rx_match [] s = (if s = [] then Some [] else None)"
| "rx_match (Lit c # items) s =
     (case s of [] \<Rightarrow> None | x # xs \<Rightarrow> if x = c then rx_match items xs else None)"
| "rx_match (StarGreedy p # items) s =
     first_some (map (\<lambda>n. rx_match items (drop n s))
                     (rev [0 ..< Suc (length (takeWhile p s))]))"
| "rx_match (PlusLazyGroup p # items) s =
     first_some (map (\<lambda>n. map_option ((#) (take n s)) (rx_match items (drop n s)))
                     [1 ..< Suc (length (takeWhile p s))])"

definition ternary_re :: "rx_item list" where
  "ternary_re =
     [StarGreedy is_space, PlusLazyGroup is_dot, StarGreedy is_space, Lit CHR ''?'',
      StarGreedy is_space, PlusLazyGroup is_dot, StarGreedy is_space, Lit CHR '':'',
      StarGreedy is_space, PlusLazyGroup is_dot, StarGreedy is_space]"

definition ternary_match :: "string \<Rightarrow> (string \<times> string \<times> string) option" where
  \<comment> \<open>\<open>expression.match(...)\<close>: the three captures, or \<open>None\<close> for \<open>null\<close>\<close>
  "ternary_match expression =
     (case rx_match ternary_re expression of
        Some [condition, trueExpr, falseExpr] \<Rightarrow> Some (condition, trueExpr, falseExpr)
      | _ \<Rightarrow> None)"

section \<open>Numbers\<close>

text \<open>
  A JavaScript number is an IEEE 754 double. It is modelled by its exact value: a rational,
  one of the two infinities, or NaN. Rounding to the nearest double is not modelled, and
  the two zeros are one (no operation of the source tells them apart).
\<close>

datatype jsnum = NaN | PInf | NInf | Fin rat

fun num_lt :: "jsnum \<Rightarrow> jsnum \<Rightarrow> bool option" where
  \<comment> \<open>\<open>Number::lessThan\<close>: \<open>None\<close> is the result \<open>undefined\<close>, when an operand is NaN\<close>
  "num_lt NaN y = None"
| "num_lt x NaN = None"
| "num_lt PInf y = Some False"
| "num_lt NInf y = Some (y \<noteq> NInf)"
| "num_lt (Fin a) PInf = Some True"
| "num_lt (Fin a) NInf = Some False"
| "num_lt (Fin a) (Fin b) = Some (a < b)"

definition num_eq :: "jsnum \<Rightarrow> jsnum \<Rightarrow> bool" where
  \<comment> \<open>\<open>Number::equal\<close>: NaN is equal to nothing\<close>
  "num_eq x y = (if x = NaN then False else x = y)"

fun digits_of_nat :: "nat \<Rightarrow> string" where
  "digits_of_nat n =
     (if n < 10 then [''0123456789'' ! n]
      else digits_of_nat (n div 10) @ [''0123456789'' ! (n mod 10)])"

declare digits_of_nat.simps [simp del]

definition digit_value :: "char \<Rightarrow> nat" where
  \<comment> \<open>the value of a digit in base 16 and below\<close>
  "digit_value c =
     (if c \<in> set ''0123456789'' then of_char c - 48
      else if c \<in> set ''abcdef'' then of_char c - 87
      else if c \<in> set ''ABCDEF'' then of_char c - 55
      else 0)"

definition digits_value :: "nat \<Rightarrow> string \<Rightarrow> nat" where
  "digits_value base ds = foldl (\<lambda>a c. a * base + digit_value c) 0 ds"

definition non_decimal_literal :: "string \<Rightarrow> nat option" where
  \<comment> \<open>\<open>NonDecimalIntegerLiteral\<close>: \<open>0x\<close>, \<open>0o\<close> or \<open>0b\<close> (either case), then digits\<close>
  "non_decimal_literal s =
     (case s of
        z # x # ds \<Rightarrow>
          if z \<noteq> CHR ''0'' \<or> ds = [] then None
          else if x \<in> set ''xX'' \<and> list_all (\<lambda>c. c \<in> set ''0123456789abcdefABCDEF'') ds
               then Some (digits_value 16 ds)
          else if x \<in> set ''oO'' \<and> list_all (\<lambda>c. c \<in> set ''01234567'') ds
               then Some (digits_value 8 ds)
          else if x \<in> set ''bB'' \<and> list_all (\<lambda>c. c \<in> set ''01'') ds
               then Some (digits_value 2 ds)
          else None
      | _ \<Rightarrow> None)"

definition exponent_part :: "string \<Rightarrow> int option" where
  \<comment> \<open>the empty text (exponent 0), or \<open>ExponentPart\<close>: \<open>e\<close> or \<open>E\<close>, a sign, digits\<close>
  "exponent_part s =
     (case s of
        [] \<Rightarrow> Some 0
      | e # r \<Rightarrow>
          if e \<notin> set ''eE'' then None
          else (let neg = (r \<noteq> [] \<and> hd r = CHR ''-'');
                    ds = (if r \<noteq> [] \<and> hd r \<in> set ''+-'' then tl r else r)
                in if ds \<noteq> [] \<and> list_all is_digit ds
                   then Some (if neg then - int (digits_value 10 ds) else int (digits_value 10 ds))
                   else None))"

definition unsigned_decimal_literal :: "string \<Rightarrow> rat option" where
  \<comment> \<open>\<open>StrUnsignedDecimalLiteral\<close> but \<open>Infinity\<close>: digits with an optional fraction, or
      a fraction alone, and an optional exponent\<close>
  "unsigned_decimal_literal s =
     (let ip = takeWhile is_digit s;
          r1 = dropWhile is_digit s;
          dot = (r1 \<noteq> [] \<and> hd r1 = CHR ''.'');
          fp = (if dot then takeWhile is_digit (tl r1) else []);
          r2 = (if dot then dropWhile is_digit (tl r1) else r1)
      in if ip = [] \<and> fp = [] then None
         else (case exponent_part r2 of
                 None \<Rightarrow> None
               | Some e \<Rightarrow>
                   (let m = of_nat (digits_value 10 (ip @ fp));
                        x = e - int (length fp)
                    in Some (if 0 \<le> x then m * 10 ^ nat x else m / 10 ^ nat (- x)))))"

definition string_to_number :: "string \<Rightarrow> jsnum" where
  \<comment> \<open>\<open>StringToNumber\<close>, which is also \<open>Number(s)\<close> for a string \<open>s\<close>\<close>
  "string_to_number s =
     (let t = str_trim s
      in if t = [] then Fin 0
         else if t = ''Infinity'' \<or> t = ''+Infinity'' then PInf
         else if t = ''-Infinity'' then NInf
         else (case non_decimal_literal t of
                 Some n \<Rightarrow> Fin (of_nat n)
               | None \<Rightarrow>
                   (let neg = (hd t = CHR ''-'');
                        u = (if hd t \<in> set ''+-'' then tl t else t)
                    in case unsigned_decimal_literal u of
                         None \<Rightarrow> NaN
                       | Some v \<Rightarrow> Fin (if neg then - v else v))))"

definition decimal_exponent :: "rat \<Rightarrow> int" where
  \<comment> \<open>for \<open>q > 0\<close>, the \<open>n\<close> with \<open>10 ^ (n - 1) \<le> q < 10 ^ n\<close>\<close>
  "decimal_exponent q =
     (let (a, b) = quotient_of q
      in if b \<le> a then int (length (digits_of_nat (nat (a div b))))
         else (case find (\<lambda>m. b \<le> a * 10 ^ Suc m) [0 ..< length (digits_of_nat (nat b))] of
                 None \<Rightarrow> 0
               | Some m \<Rightarrow> - int m))"

definition significant_digits :: "rat \<Rightarrow> string" where
  \<comment> \<open>for \<open>q > 0\<close>, its decimal digits from the first non-zero one, at most 17 of them
      (a double has no more), without trailing zeros\<close>
  "significant_digits q =
     (let x = 17 - decimal_exponent q;
          scaled = (if 0 \<le> x then q * 10 ^ nat x else q / 10 ^ nat (- x))
      in rev (dropWhile (\<lambda>c. c = CHR ''0'') (rev (digits_of_nat (nat \<lfloor>scaled\<rfloor>)))))"

definition positive_to_string :: "rat \<Rightarrow> string" where
  \<comment> \<open>the cases of \<open>Number::toString\<close> for a finite positive number with digits \<open>s\<close>,
      \<open>k\<close> of them, and decimal exponent \<open>n\<close>\<close>
  "positive_to_string q =
     (let n = decimal_exponent q;
          s = significant_digits q;
          k = int (length s)
      in if k \<le> n \<and> n \<le> 21 then s @ replicate (nat (n - k)) CHR ''0''
         else if 0 < n \<and> n \<le> 21 then take (nat n) s @ ''.'' @ drop (nat n) s
         else if - 6 < n \<and> n \<le> 0 then ''0.'' @ replicate (nat (- n)) CHR ''0'' @ s
         else (let e = (if 0 \<le> n - 1 then ''e+'' else ''e-'') @ digits_of_nat (nat \<bar>n - 1\<bar>)
               in if k = 1 then s @ e else take 1 s @ ''.'' @ drop 1 s @ e))"

fun number_to_string :: "jsnum \<Rightarrow> string" where
  \<comment> \<open>\<open>Number::toString\<close> in radix 10\<close>
  "number_to_string NaN = ''NaN''"
| "number_to_string PInf = ''Infinity''"
| "number_to_string NInf = ''-Infinity''"
| "number_to_string (Fin q) =
     (if q = 0 then ''0''
      else if q < 0 then ''-'' @ positive_to_string (- q)
      else positive_to_string q)"

section \<open>Values, property reads and conversions\<close>

text \<open>
  The values of the program are the ones \<open>JSON.parse\<close> builds (null, booleans, numbers,
  strings, arrays, plain objects), \<open>undefined\<close>, and the built-in function objects of the
  engine, which no payload contains but a property read can reach through a prototype.
  An array or object carries its identity (its address on the heap), which is what
  \<open>===\<close> compares. An object is the list of its own properties, looked up by \<open>map_of\<close>.
\<close>

datatype jsval =
    JUndefined
  | JNull
  | JBool bool
  | JNum jsnum
  | JStr string
  | JArr nat "jsval list"
  | JObj nat "(string \<times> jsval) list"
  | JBuiltin string

datatype exn =
    TypeError string
  | HTTPException nat string
  | SyntaxError string

fun message :: "exn \<Rightarrow> string" where
  "message (TypeError m) = m"
| "message (HTTPException status m) = m"
| "message (SyntaxError m) = m"

text \<open>
  What the JavaScript engine supplies and the repository does not define: the value a
  property read finds on the prototype chain when the property is not an own one, and the
  text a built-in function converts to. Every function that reads a property or converts
  to a string takes the engine as a parameter. An inherited property is a value here: an
  accessor on a prototype that raises when it is read is outside the model.
\<close>

record engine =
  proto_get :: "jsval \<Rightarrow> string \<Rightarrow> jsval"
  builtin_text :: "string \<Rightarrow> string"

fun typeof :: "jsval \<Rightarrow> string" where
  "typeof JUndefined = ''undefined''"
| "typeof JNull = ''object''"
| "typeof (JBool b) = ''boolean''"
| "typeof (JNum n) = ''number''"
| "typeof (JStr s) = ''string''"
| "typeof (JArr a xs) = ''object''"
| "typeof (JObj a kvs) = ''object''"
| "typeof (JBuiltin f) = ''function''"

fun truthy :: "jsval \<Rightarrow> bool" where
  \<comment> \<open>\<open>ToBoolean\<close>\<close>
  "truthy JUndefined = False"
| "truthy JNull = False"
| "truthy (JBool b) = b"
| "truthy (JNum n) = (if n = NaN then False else n \<noteq> Fin 0)"
| "truthy (JStr s) = (s \<noteq> [])"
| "truthy (JArr a xs) = True"
| "truthy (JObj a kvs) = True"
| "truthy (JBuiltin f) = True"

fun own_property :: "jsval \<Rightarrow> string \<Rightarrow> jsval option" where
  \<comment> \<open>the own properties: of an object its entries; of an array \<open>length\<close> and the
      indices, written in decimal without leading zeros; of a string likewise\<close>
  "own_property (JObj a kvs) key = map_of kvs key"
| "own_property (JArr a xs) key =
     (if key = ''length'' then Some (JNum (Fin (of_nat (length xs))))
      else map_of (zip (map digits_of_nat [0 ..< length xs]) xs) key)"
| "own_property (JStr s) key =
     (if key = ''length'' then Some (JNum (Fin (of_nat (length s))))
      else map_of (zip (map digits_of_nat [0 ..< length s]) (map (\<lambda>c. JStr [c]) s)) key)"
| "own_property v key = None"

definition hasOwnProperty :: "jsval \<Rightarrow> string \<Rightarrow> bool" where
  \<comment> \<open>\<open>Object.prototype.hasOwnProperty.call(ob, key)\<close>, for \<open>ob\<close> neither null nor undefined\<close>
  "hasOwnProperty ob key = (own_property ob key \<noteq> None)"

definition js_get :: "engine \<Rightarrow> jsval \<Rightarrow> string \<Rightarrow> jsval" where
  \<comment> \<open>the property read \<open>ob[key]\<close>, for \<open>ob\<close> neither null nor undefined: the own property,
      or else what the prototype chain gives\<close>
  "js_get eng ob key =
     (case own_property ob key of Some v \<Rightarrow> v | None \<Rightarrow> proto_get eng ob key)"

primrec to_string :: "engine \<Rightarrow> jsval \<Rightarrow> exn + string"
  and join_elements :: "engine \<Rightarrow> jsval list \<Rightarrow> exn + string" where
  \<comment> \<open>\<open>String(v)\<close>, that is \<open>ToString\<close>. An array is joined with commas, null and
      undefined elements as empty text. A plain object converts by the \<open>toString\<close> it
      inherits; an own property of that name hides it and, being no function in a payload,
      leaves nothing to call: \<open>OrdinaryToPrimitive\<close> throws a TypeError.\<close>
  "to_string eng JUndefined = Inr ''undefined''"
| "to_string eng JNull = Inr ''null''"
| "to_string eng (JBool b) = Inr (if b then ''true'' else ''false'')"
| "to_string eng (JNum n) = Inr (number_to_string n)"
| "to_string eng (JStr s) = Inr s"
| "to_string eng (JArr a xs) = join_elements eng xs"
| "to_string eng (JObj a kvs) =
     (if map_of kvs ''toString'' = None then Inr ''[object Object]''
      else Inl (TypeError ''Cannot convert object to primitive value''))"
| "to_string eng (JBuiltin f) = Inr (builtin_text eng f)"
| "join_elements eng [] = Inr []"
| "join_elements eng (x # xs) =
     (case (if x = JUndefined then Inr [] else if x = JNull then Inr [] else to_string eng x) of
        Inl e \<Rightarrow> Inl e
      | Inr s \<Rightarrow>
          if xs = [] then Inr s
          else (case join_elements eng xs of
                  Inl e \<Rightarrow> Inl e
                | Inr r \<Rightarrow> Inr (s @ '','' @ r)))"

fun is_object :: "jsval \<Rightarrow> bool" where
  \<comment> \<open>the value is an Object of the language (not a primitive)\<close>
  "is_object (JArr a xs) = True"
| "is_object (JObj a kvs) = True"
| "is_object (JBuiltin f) = True"
| "is_object v = False"

definition to_primitive :: "engine \<Rightarrow> jsval \<Rightarrow> exn + jsval" where
  \<comment> \<open>\<open>ToPrimitive\<close>: the inherited \<open>valueOf\<close> returns the object itself, so an object
      converts by \<open>toString\<close>, whatever the hint\<close>
  "to_primitive eng v =
     (if is_object v
      then (case to_string eng v of Inl e \<Rightarrow> Inl e | Inr s \<Rightarrow> Inr (JStr s))
      else Inr v)"

fun to_number :: "jsval \<Rightarrow> jsnum" where
  \<comment> \<open>\<open>ToNumber\<close> of a primitive\<close>
  "to_number JUndefined = NaN"
| "to_number JNull = Fin 0"
| "to_number (JBool b) = Fin (if b then 1 else 0)"
| "to_number (JNum n) = n"
| "to_number (JStr s) = string_to_number s"
| "to_number v = NaN"

fun str_lt :: "string \<Rightarrow> string \<Rightarrow> bool" where
  \<comment> \<open>the order of strings: by code units, a proper prefix first\<close>
  "str_lt s [] = False"
| "str_lt [] (y # ys) = True"
| "str_lt (x # xs) (y # ys) =
     (if x = y then str_lt xs ys else (of_char x :: nat) < of_char y)"

fun strict_eq :: "jsval \<Rightarrow> jsval \<Rightarrow> bool" where
  \<comment> \<open>\<open>IsStrictlyEqual\<close>: objects by identity\<close>
  "strict_eq JUndefined JUndefined = True"
| "strict_eq JNull JNull = True"
| "strict_eq (JBool a) (JBool b) = (a = b)"
| "strict_eq (JNum a) (JNum b) = num_eq a b"
| "strict_eq (JStr a) (JStr b) = (a = b)"
| "strict_eq (JArr a xs) (JArr b ys) = (a = b)"
| "strict_eq (JObj a xs) (JObj b ys) = (a = b)"
| "strict_eq (JBuiltin f) (JBuiltin g) = (f = g)"
| "strict_eq x y = False"

fun type_tag :: "jsval \<Rightarrow> nat" where
  \<comment> \<open>the language type of a value: Undefined, Null, Boolean, Number, String, Object\<close>
  "type_tag JUndefined = 0"
| "type_tag JNull = 1"
| "type_tag (JBool b) = 2"
| "type_tag (JNum n) = 3"
| "type_tag (JStr s) = 4"
| "type_tag v = 5"

fun bool_to_number :: "jsval \<Rightarrow> jsval" where
  "bool_to_number (JBool b) = JNum (Fin (if b then 1 else 0))"
| "bool_to_number v = v"

definition loose_eq :: "engine \<Rightarrow> jsval \<Rightarrow> jsval \<Rightarrow> exn + bool" where
  \<comment> \<open>\<open>IsLooselyEqual\<close>: equal types compare strictly; null and undefined equal each
      other and nothing else; a boolean becomes a number, an object a primitive; then two
      strings compare as strings and anything else as numbers\<close>
  "loose_eq eng x y =
     (if type_tag x = type_tag y then Inr (strict_eq x y)
      else if type_tag x \<le> 1 \<and> type_tag y \<le> 1 then Inr True
      else if type_tag x \<le> 1 then Inr False
      else if type_tag y \<le> 1 then Inr False
      else (case to_primitive eng (bool_to_number x) of
              Inl e \<Rightarrow> Inl e
            | Inr px \<Rightarrow>
                (case to_primitive eng (bool_to_number y) of
                   Inl e \<Rightarrow> Inl e
                 | Inr py \<Rightarrow>
                     (case (px, py) of
                        (JStr a, JStr b) \<Rightarrow> Inr (a = b)
                      | _ \<Rightarrow> Inr (num_eq (to_number px) (to_number py))))))"

definition less_than :: "engine \<Rightarrow> jsval \<Rightarrow> jsval \<Rightarrow> exn + bool option" where
  \<comment> \<open>\<open>IsLessThan\<close>: \<open>None\<close> is the result \<open>undefined\<close>\<close>
  "less_than eng x y =
     (case to_primitive eng x of
        Inl e \<Rightarrow> Inl e
      | Inr px \<Rightarrow>
          (case to_primitive eng y of
             Inl e \<Rightarrow> Inl e
           | Inr py \<Rightarrow>
               (case (px, py) of
                  (JStr a, JStr b) \<Rightarrow> Inr (Some (str_lt a b))
                | _ \<Rightarrow> Inr (num_lt (to_number px) (to_number py)))))"

definition bind_exn :: "exn + 'a \<Rightarrow> ('a \<Rightarrow> exn + 'b) \<Rightarrow> exn + 'b" where
  \<comment> \<open>sequencing: a thrown exception skips what follows\<close>
  "bind_exn m f = (case m of Inl e \<Rightarrow> Inl e | Inr x \<Rightarrow> f x)"

section \<open>The path resolver, \<open>getValueByPath\<close> of \<open>src/index.ts\<close>\<close>

definition getValueByPath_step :: "engine \<Rightarrow> jsval \<Rightarrow> string \<Rightarrow> jsval" where
  \<comment> \<open>the callback of \<open>keys.reduce\<close>\<close>
  "getValueByPath_step eng ob key =
     (if key = [] then JUndefined
      else if key = ''__proto__'' then JUndefined
      else if key = ''constructor'' then JUndefined
      else if key = ''prototype'' then JUndefined
      else if truthy ob \<and> typeof ob = ''object'' \<and> hasOwnProperty ob key
           then js_get eng ob key
      else JUndefined)"

definition getValueByPath :: "engine \<Rightarrow> jsval \<Rightarrow> string \<Rightarrow> jsval" where
  \<comment> \<open>\<open>path\<close> is a string by its type, so of the first guard remain the tests of
      \<open>obj\<close> and of the empty path\<close>
  "getValueByPath eng obj path =
     (if truthy obj \<and> typeof obj = ''object'' \<and> path \<noteq> []
      then (if path_re path
            then foldl (getValueByPath_step eng) obj (str_split path ''.'')
            else JUndefined)
      else JUndefined)"

section \<open>The expression evaluator, \<open>evaluateExpression\<close>\<close>

type_synonym operator = "engine \<Rightarrow> jsval \<Rightarrow> jsval \<Rightarrow> exn + jsval"

definition op_seq :: operator where
  "op_seq eng a b = Inr (JBool (strict_eq a b))"

definition op_sne :: operator where
  "op_sne eng a b = Inr (JBool (\<not> strict_eq a b))"

definition op_eq :: operator where
  "op_eq eng a b = bind_exn (loose_eq eng a b) (\<lambda>r. Inr (JBool r))"

definition op_ne :: operator where
  "op_ne eng a b = bind_exn (loose_eq eng a b) (\<lambda>r. Inr (JBool (\<not> r)))"

definition op_gt :: operator where
  \<comment> \<open>\<open>a > b\<close> is true when \<open>b < a\<close> is\<close>
  "op_gt eng a b = bind_exn (less_than eng b a) (\<lambda>r. Inr (JBool (r = Some True)))"

definition op_lt :: operator where
  "op_lt eng a b = bind_exn (less_than eng a b) (\<lambda>r. Inr (JBool (r = Some True)))"

definition op_ge :: operator where
  \<comment> \<open>\<open>a >= b\<close> is true when \<open>a < b\<close> is false (and not undefined)\<close>
  "op_ge eng a b = bind_exn (less_than eng a b) (\<lambda>r. Inr (JBool (r = Some False)))"

definition op_le :: operator where
  "op_le eng a b = bind_exn (less_than eng b a) (\<lambda>r. Inr (JBool (r = Some False)))"

definition op_and :: operator where
  "op_and eng a b = Inr (if truthy a then b else a)"

definition op_or :: operator where
  "op_or eng a b = Inr (if truthy a then a else b)"

definition operators :: "(string \<times> operator) list" where
  \<comment> \<open>the entries of the object \<open>operators\<close>, in the order \<open>Object.entries\<close> gives them:
      the order in which the source writes them\<close>
  "operators =
     [(''==='', op_seq), (''!=='', op_sne), (''=='', op_eq), (''!='', op_ne),
      (''>'', op_gt), (''<'', op_lt), (''>='', op_ge), (''<='', op_le),
      (''&&'', op_and), (''||'', op_or)]"

definition find_operator :: "string \<Rightarrow> (string \<times> operator) option" where
  \<comment> \<open>the loop over the entries up to its \<open>break\<close>: the first entry whose token the
      condition includes\<close>
  "find_operator condition = find (\<lambda>(op, func). str_includes condition op) operators"

definition parse_operand :: "engine \<Rightarrow> jsval \<Rightarrow> string \<Rightarrow> jsval" where
  \<comment> \<open>the callback of \<open>condition.split(op).map\<close>\<close>
  "parse_operand eng data part0 =
     (let part = str_trim part0
      in if path_re part then getValueByPath eng data part
         else if quoted_re part then JStr (str_substring part 1 (length part - 1))
         else if number_re part then JNum (string_to_number part)
         else if part = ''true'' then JBool True
         else if part = ''false'' then JBool False
         else JStr part)"

definition condition_result :: "engine \<Rightarrow> jsval \<Rightarrow> string \<Rightarrow> exn + jsval" where
  \<comment> \<open>\<open>conditionResult\<close> after the loop; \<open>[left, right]\<close> takes the first two parts,
      \<open>undefined\<close> for a part that is not there\<close>
  "condition_result eng data condition =
     (case find_operator condition of
        None \<Rightarrow> Inr (JBool False)
      | Some (op, func) \<Rightarrow>
          (case map (parse_operand eng data) (str_split condition op) of
             [] \<Rightarrow> func eng JUndefined JUndefined
           | [left] \<Rightarrow> func eng left JUndefined
           | left # right # rest \<Rightarrow> func eng left right))"

definition branch_value :: "engine \<Rightarrow> jsval \<Rightarrow> string \<Rightarrow> jsval" where
  \<comment> \<open>what the evaluator returns for the branch \<open>trueExpr\<close> or \<open>falseExpr\<close> it takes\<close>
  "branch_value eng data branch =
     (if quoted_re branch then JStr (str_substring branch 1 (length branch - 1))
      else getValueByPath eng data (str_trim branch))"

definition evaluateExpression_try :: "engine \<Rightarrow> string \<Rightarrow> jsval \<Rightarrow> exn + jsval" where
  \<comment> \<open>the body of the \<open>try\<close> block\<close>
  "evaluateExpression_try eng expression data =
     (case ternary_match expression of
        Some (condition, trueExpr, falseExpr) \<Rightarrow>
          bind_exn (condition_result eng data condition)
            (\<lambda>conditionResult.
               if truthy conditionResult then Inr (branch_value eng data trueExpr)
               else Inr (branch_value eng data falseExpr))
      | None \<Rightarrow> Inr (getValueByPath eng data (str_trim expression)))"

definition evaluateExpression :: "engine \<Rightarrow> string \<Rightarrow> jsval \<Rightarrow> exn + jsval" where
  \<comment> \<open>\<open>try { ... } catch (error) { console.error(...); return "" }\<close>\<close>
  "evaluateExpression eng expression data =
     (case evaluateExpression_try eng expression data of
        Inl error \<Rightarrow> Inr (JStr [])
      | Inr v \<Rightarrow> Inr v)"

section \<open>The template renderer, \<open>replaceTemplateVars\<close>\<close>

definition placeholder_match :: "(char \<Rightarrow> bool) \<Rightarrow> string \<Rightarrow> (string \<times> string) option" where
  \<comment> \<open>a match of \<open>\${(C+)}\<close> at the start of \<open>s\<close>, for a character class \<open>C\<close> that
      excludes the closing brace: the captured text and what follows the match. The run of
      \<open>C\<close> is the longest one: a shorter one is followed by a character of \<open>C\<close>, not by
      the brace.\<close>
  "placeholder_match cls s =
     (case s of
        d # b # r \<Rightarrow>
          if d = CHR ''$'' \<and> b = CHR ''{''
          then (case dropWhile cls r of
                  [] \<Rightarrow> None
                | c # rest \<Rightarrow>
                    if c = CHR ''}'' \<and> takeWhile cls r \<noteq> [] then Some (takeWhile cls r, rest)
                    else None)
          else None
      | _ \<Rightarrow> None)"

lemma placeholder_match_shorter:
  "placeholder_match cls s = Some (body, rest) \<Longrightarrow> length rest < length s"
proof -
  assume m: "placeholder_match cls s = Some (body, rest)"
  then obtain d b r where s: "s = d # b # r"
    by (cases s rule: list.exhaust[case_product list.exhaust, of _ "tl s"])
       (auto simp: placeholder_match_def split: list.splits)
  from m s obtain c where "dropWhile cls r = c # rest"
    by (auto simp: placeholder_match_def split: list.splits if_splits)
  then have "length rest < length (dropWhile cls r)" by simp
  also have "\<dots> \<le> length r" by (rule length_dropWhile_le)
  finally show ?thesis using s by simp
qed

function replace_all ::
  "(char \<Rightarrow> bool) \<Rightarrow> (string \<Rightarrow> exn + string) \<Rightarrow> string \<Rightarrow> exn + string" where
  \<comment> \<open>\<open>template.replace(/\${(C+)}/g, f)\<close>: the template is scanned once from left to
      right; a match is replaced by what \<open>f\<close> returns for its capture and the scan goes on
      after the match, in the template; where nothing matches the character is kept\<close>
  "replace_all cls f [] = Inr []"
| "replace_all cls f (c # cs) =
     (case placeholder_match cls (c # cs) of
        Some (body, rest) \<Rightarrow>
          bind_exn (f body) (\<lambda>r. bind_exn (replace_all cls f rest) (\<lambda>t. Inr (r @ t)))
      | None \<Rightarrow> bind_exn (replace_all cls f cs) (\<lambda>t. Inr (c # t)))"
  by pat_completeness auto
termination
  by (relation "measure (\<lambda>(cls, f, s). length s)")
     (auto dest: placeholder_match_shorter)

definition template_value :: "engine \<Rightarrow> jsval \<Rightarrow> string \<Rightarrow> exn + string" where
  \<comment> \<open>the callback of \<open>template.replace\<close> in \<open>src/index.ts\<close>: the text for the
      placeholder whose body is \<open>expression\<close>\<close>
  "template_value eng data expression =
     (if path_re expression
      then (let v = getValueByPath eng data expression
            in if v \<noteq> JUndefined then to_string eng v else Inr [])
      else bind_exn (evaluateExpression eng expression data)
             (\<lambda>v. to_string eng (if truthy v then v else JStr [])))"

definition not_brace :: "char \<Rightarrow> bool" where
  \<comment> \<open>the class \<open>[^}]\<close>\<close>
  "not_brace c = (c \<noteq> CHR ''}'')"

definition replaceTemplateVars :: "engine \<Rightarrow> string \<Rightarrow> jsval \<Rightarrow> exn + string" where
  \<comment> \<open>\<open>template.replace(/\${([^}]+)}/g, ...)\<close>\<close>
  "replaceTemplateVars eng template data =
     replace_all not_brace (template_value eng data) template"

section \<open>The rule mapper: \<open>barkParams\<close> of \<open>sendToBark\<close>\<close>

text \<open>
  The interface \<open>WebhookRule\<close>. An optional field is \<open>None\<close> when the rule does not
  define it. The fields \<open>id\<close> and \<open>name\<close> are \<open>rule_id\<close> and \<open>rule_name\<close> here.
\<close>

record rule_mapping =
  title :: string
  body :: string
  group :: "string option"
  icon :: "string option"
  url :: "string option"
  sound :: "string option"

record WebhookRule =
  rule_id :: string
  rule_name :: string
  mapping :: rule_mapping
  barkUrl :: string

definition render_optional :: "engine \<Rightarrow> string option \<Rightarrow> jsval \<Rightarrow> exn + string option" where
  \<comment> \<open>\<open>field ? replaceTemplateVars(field, data) : undefined\<close>: an absent field and the
      empty string are both falsy\<close>
  "render_optional eng field data =
     (case field of
        None \<Rightarrow> Inr None
      | Some template \<Rightarrow>
          if template = [] then Inr None
          else bind_exn (replaceTemplateVars eng template data) (\<lambda>r. Inr (Some r)))"

fun defined_entries :: "(string \<times> string option) list \<Rightarrow> (string \<times> string) list" where
  \<comment> \<open>the entries that are left when the keys with the value \<open>undefined\<close> are deleted\<close>
  "defined_entries [] = []"
| "defined_entries ((key, None) # es) = defined_entries es"
| "defined_entries ((key, Some v) # es) = (key, v) # defined_entries es"

definition barkParams :: "engine \<Rightarrow> WebhookRule \<Rightarrow> jsval \<Rightarrow> exn + (string \<times> string) list" where
  \<comment> \<open>the object \<open>barkParams\<close> of \<open>sendToBark\<close> in \<open>src/index.ts\<close>, after the keys with
      undefined values are deleted: its entries in their order\<close>
  "barkParams eng rule data =
     bind_exn (replaceTemplateVars eng (title (mapping rule)) data) (\<lambda>t.
     bind_exn (replaceTemplateVars eng (body (mapping rule)) data) (\<lambda>b.
     bind_exn (render_optional eng (group (mapping rule)) data) (\<lambda>g.
     bind_exn (render_optional eng (icon (mapping rule)) data) (\<lambda>i.
     bind_exn (render_optional eng (url (mapping rule)) data) (\<lambda>u.
     bind_exn (render_optional eng (sound (mapping rule)) data) (\<lambda>s.
       Inr (defined_entries
              [(''title'', Some t), (''body'', Some b), (''group'', g),
               (''icon'', i), (''url'', u), (''sound'', s)])))))))"

section \<open>The endpoint \<open>POST /rules\<close>\<close>

text \<open>
  The rule store is the KV namespace: a map from keys to stored values. \<open>saveRule\<close> stores
  the JSON text of the rule; the model keeps the value that text is written from.
\<close>

type_synonym kv = "string \<Rightarrow> jsval option"

datatype response = JsonResponse nat "(string \<times> jsval) list"

definition get_property :: "engine \<Rightarrow> jsval \<Rightarrow> string \<Rightarrow> exn + jsval" where
  \<comment> \<open>an unguarded read \<open>v.key\<close>: a TypeError on null and undefined\<close>
  "get_property eng v key =
     (if v = JNull then
        Inl (TypeError (''Cannot read properties of null (reading '' @ [CHR 0x27] @ key @ [CHR 0x27] @ '')''))
      else if v = JUndefined then
        Inl (TypeError (''Cannot read properties of undefined (reading '' @ [CHR 0x27] @ key @ [CHR 0x27] @ '')''))
      else Inr (js_get eng v key))"

definition saveRule :: "engine \<Rightarrow> kv \<Rightarrow> jsval \<Rightarrow> exn + kv" where
  \<comment> \<open>\<open>kv.put(`rule:${rule.id}`, JSON.stringify(rule))\<close>\<close>
  "saveRule eng store rule =
     bind_exn (get_property eng rule ''id'') (\<lambda>i.
     bind_exn (to_string eng i) (\<lambda>key.
       Inr (store(''rule:'' @ key \<mapsto> rule))))"

definition post_rules_try :: "engine \<Rightarrow> exn + jsval \<Rightarrow> kv \<Rightarrow> exn + (response \<times> kv)" where
  \<comment> \<open>the body of the handler's \<open>try\<close> block; \<open>request_json\<close> is what
      \<open>await c.req.json()\<close> gives: the parsed body, or the exception of a body that is
      not JSON\<close>
  "post_rules_try eng request_json store =
     bind_exn request_json (\<lambda>rule.
     bind_exn (get_property eng rule ''id'') (\<lambda>i.
       if truthy i then
         bind_exn (get_property eng rule ''name'') (\<lambda>n.
           if truthy n then
             bind_exn (get_property eng rule ''mapping'') (\<lambda>m.
               if truthy m then
                 bind_exn (get_property eng rule ''barkUrl'') (\<lambda>u.
                   if truthy u then
                     bind_exn (saveRule eng store rule) (\<lambda>store'.
                       Inr (JsonResponse 200
                              [(''message'', JStr ''Rule saved successfully''), (''id'', i)],
                            store'))
                   else Inl (HTTPException 400 ''Missing required fields''))
               else Inl (HTTPException 400 ''Missing required fields''))
           else Inl (HTTPException 400 ''Missing required fields''))
       else Inl (HTTPException 400 ''Missing required fields'')))"

definition post_rules :: "engine \<Rightarrow> exn + jsval \<Rightarrow> kv \<Rightarrow> response \<times> kv" where
  \<comment> \<open>\<open>app.post('/rules', ...)\<close>: the response and the store afterwards\<close>
  "post_rules eng request_json store =
     (case post_rules_try eng request_json store of
        Inl error \<Rightarrow> (JsonResponse 400 [(''error'', JStr (message error))], store)
      | Inr result \<Rightarrow> result)"

section \<open>The simpler variant (\<open>src/unnamed/part_000\<close>)\<close>

definition getValueByPath_simple :: "engine \<Rightarrow> jsval \<Rightarrow> string \<Rightarrow> jsval" where
  \<comment> \<open>\<open>keys.reduce((o, key) => (o && o[key] !== undefined) ? o[key] : undefined, obj)\<close>\<close>
  "getValueByPath_simple eng obj path =
     foldl (\<lambda>ob key. if truthy ob \<and> js_get eng ob key \<noteq> JUndefined
                      then js_get eng ob key else JUndefined)
       obj (str_split path ''.'')"

definition template_value_simple :: "engine \<Rightarrow> jsval \<Rightarrow> string \<Rightarrow> exn + string" where
  \<comment> \<open>the callback of \<open>template.replace\<close> in the simpler variant\<close>
  "template_value_simple eng data path =
     (let v = getValueByPath_simple eng data path
      in if v \<noteq> JUndefined then to_string eng v else Inr [])"

definition replaceTemplateVars_simple :: "engine \<Rightarrow> string \<Rightarrow> jsval \<Rightarrow> exn + string" where
  \<comment> \<open>\<open>template.replace(/\${([\w.]+)}/g, ...)\<close>\<close>
  "replaceTemplateVars_simple eng template data =
     replace_all is_path_char (template_value_simple eng data) template"

definition render_optional_simple ::
  "engine \<Rightarrow> string option \<Rightarrow> jsval \<Rightarrow> exn + string option" where
  "render_optional_simple eng field data =
     (case field of
        None \<Rightarrow> Inr None
      | Some template \<Rightarrow>
          if template = [] then Inr None
          else bind_exn (replaceTemplateVars_simple eng template data) (\<lambda>r. Inr (Some r)))"

definition barkParams_simple ::
  "engine \<Rightarrow> WebhookRule \<Rightarrow> jsval \<Rightarrow> exn + (string \<times> string) list" where
  \<comment> \<open>\<open>barkParams\<close> of the simpler \<open>sendToBark\<close>: \<open>sound\<close> is the rule's field as it is\<close>
  "barkParams_simple eng rule data =
     bind_exn (replaceTemplateVars_simple eng (title (mapping rule)) data) (\<lambda>t.
     bind_exn (replaceTemplateVars_simple eng (body (mapping rule)) data) (\<lambda>b.
     bind_exn (render_optional_simple eng (group (mapping rule)) data) (\<lambda>g.
     bind_exn (render_optional_simple eng (icon (mapping rule)) data) (\<lambda>i.
     bind_exn (render_optional_simple eng (url (mapping rule)) data) (\<lambda>u.
       Inr (defined_entries
              [(''title'', Some t), (''body'', Some b), (''group'', g),
               (''icon'', i), (''url'', u), (''sound'', sound (mapping rule))]))))))"

section \<open>An engine and inputs for the examples\<close>

definition example_engine :: engine where
  \<comment> \<open>of the standard library, the property \<open>constructor\<close> that every value inherits
      from its prototype, and V8's text for a built-in function; no example below reads
      another inherited property\<close>
  "example_engine =
     \<lparr> proto_get = (\<lambda>v key.
          if key = ''constructor''
          then (case v of
                  JBool b \<Rightarrow> JBuiltin ''Boolean''
                | JNum n \<Rightarrow> JBuiltin ''Number''
                | JStr s \<Rightarrow> JBuiltin ''String''
                | JArr a xs \<Rightarrow> JBuiltin ''Array''
                | JObj a kvs \<Rightarrow> JBuiltin ''Object''
                | JBuiltin f \<Rightarrow> JBuiltin ''Function''
                | _ \<Rightarrow> JUndefined)
          else JUndefined),
       builtin_text = (\<lambda>f. ''function '' @ f @ ''() { [native code] }'') \<rparr>"

definition example_payload :: jsval where
  \<comment> \<open>the payload \<open>{"n": 42, "a": 2, "b": 1, "c": 2}\<close>\<close>
  "example_payload =
     JObj 0 [(''n'', JNum (Fin 42)), (''a'', JNum (Fin 2)), (''b'', JNum (Fin 1)),
             (''c'', JNum (Fin 2))]"

definition example_rule :: WebhookRule where
  \<comment> \<open>a rule with a group, a url whose rendering is empty, an empty sound and no icon\<close>
  "example_rule =
     \<lparr> rule_id = ''r1'', rule_name = ''Example'',
       mapping = \<lparr> title = ''Hi ${n}'', body = ''B'', group = Some ''team ${a}'',
                   icon = None, url = Some ''${missing}'', sound = Some [] \<rparr>,
       barkUrl = ''https://x/y'' \<rparr>"

definition rule_without_templates :: jsval where
  \<comment> \<open>the request body \<open>{"id": "r1", "name": "n", "mapping": {}, "barkUrl": "https://x/y"}\<close>\<close>
  "rule_without_templates =
     JObj 0 [(''id'', JStr ''r1''), (''name'', JStr ''n''), (''mapping'', JObj 1 []),
             (''barkUrl'', JStr ''https://x/y'')]"

definition signature_payload :: jsval where
  \<comment> \<open>the payload \<open>{"sig": "dGVzdA=="}\<close>\<close>
  "signature_payload = JObj 0 [(''sig'', JStr ''dGVzdA=='')]"

definition signature_condition :: string where
  \<comment> \<open>the condition \<open>sig == 'dGVzdA=='\<close>, whose quoted literal ends with the token \<open>==\<close>\<close>
  "signature_condition = ''sig == 'dGVzdA=='' @ [CHR 0x27]"

section \<open>Notions of the specification\<close>

fun before_first :: "string \<Rightarrow> string \<Rightarrow> string" where
  \<comment> \<open>the text of \<open>s\<close> before the first occurrence of \<open>t\<close>; all of \<open>s\<close> when there is none\<close>
  "before_first [] t = []"
| "before_first (c # cs) t = (if prefix t (c # cs) then [] else c # before_first cs t)"

fun after_first :: "string \<Rightarrow> string \<Rightarrow> string" where
  \<comment> \<open>the remainder of \<open>s\<close> after the first occurrence of \<open>t\<close>\<close>
  "after_first [] t = []"
| "after_first (c # cs) t =
     (if prefix t (c # cs) then drop (length t) (c # cs) else after_first cs t)"

fun own_path :: "jsval \<Rightarrow> string list \<Rightarrow> jsval option" where
  \<comment> \<open>the value reached from \<open>ob\<close> by reading own properties only, one per key\<close>
  "own_path ob [] = Some ob"
| "own_path ob (key # keys) =
     (case own_property ob key of None \<Rightarrow> None | Some v \<Rightarrow> own_path v keys)"

definition forbidden_key :: "string \<Rightarrow> bool" where
  \<comment> \<open>an empty segment, or one of the three names the specification blocks\<close>
  "forbidden_key key =
     (key = [] \<or> key = ''__proto__'' \<or> key = ''constructor'' \<or> key = ''prototype'')"

datatype segment = Plain string | Hole string

function segments :: "(char \<Rightarrow> bool) \<Rightarrow> string \<Rightarrow> segment list" where
  \<comment> \<open>the template cut into its placeholders, found from left to right without
      overlap, and the characters between them; it depends on the template alone\<close>
  "segments cls [] = []"
| "segments cls (c # cs) =
     (case placeholder_match cls (c # cs) of
        Some (expr, rest) \<Rightarrow> Hole expr # segments cls rest
      | None \<Rightarrow> Plain [c] # segments cls cs)"
  by pat_completeness auto
termination
  by (relation "measure (\<lambda>(cls, s). length s)")
     (auto dest: placeholder_match_shorter)

fun render_segments :: "(string \<Rightarrow> exn + string) \<Rightarrow> segment list \<Rightarrow> exn + string" where
  \<comment> \<open>one pass over the segments: plain text goes to the output as it is, and so does
      the text \<open>f\<close> gives for a placeholder; nothing that was put out is read again\<close>
  "render_segments f [] = Inr []"
| "render_segments f (Plain s # segs) =
     bind_exn (render_segments f segs) (\<lambda>t. Inr (s @ t))"
| "render_segments f (Hole expr # segs) =
     bind_exn (f expr) (\<lambda>r. bind_exn (render_segments f segs) (\<lambda>t. Inr (r @ t)))"

definition optional_param ::
  "(string \<Rightarrow> exn + string) \<Rightarrow> string option \<Rightarrow> (string \<times> string) list \<Rightarrow> string \<Rightarrow> bool" where
  \<comment> \<open>what the amended claim on the rule mapper says of one optional field: the key is
      absent when the rule does not define the field or defines it as the empty string,
      and otherwise holds the rendering of the field's template, empty or not\<close>
  "optional_param render field params key =
     (case field of
        None \<Rightarrow> map_of params key = None
      | Some template \<Rightarrow>
          if template = [] then map_of params key = None
          else (case render template of
                  Inl e \<Rightarrow> False
                | Inr r \<Rightarrow> map_of params key = Some r))"

section \<open>Supporting lemmas\<close>

lemma bind_exn_Inr [simp]: "bind_exn (Inr x) f = f x"
  by (simp add: bind_exn_def)

lemma bind_exn_Inl [simp]: "bind_exn (Inl e) f = Inl e"
  by (simp add: bind_exn_def)

lemma bind_exn_assoc:
  "bind_exn (bind_exn m f) g = bind_exn m (\<lambda>x. bind_exn (f x) g)"
  by (cases m) simp_all

lemma bind_exn_return: "bind_exn m Inr = m"
  by (cases m) simp_all

lemma bind_exn_eq_Inr:
  "bind_exn m f = Inr y \<longleftrightarrow> (\<exists>x. m = Inr x \<and> f x = Inr y)"
  by (cases m) simp_all

subsection \<open>Substrings and \<open>split\<close>\<close>

lemma str_includes_iff: "str_includes s t \<longleftrightarrow> (\<exists>p r. s = p @ t @ r)"
proof (induction s)
  case Nil
  show ?case by simp
next
  case (Cons c cs)
  show ?case
  proof
    assume "str_includes (c # cs) t"
    then consider "prefix t (c # cs)" | "str_includes cs t"
      by (auto split: if_splits)
    then show "\<exists>p r. c # cs = p @ t @ r"
    proof cases
      case 1
      then obtain r where "c # cs = t @ r" by (auto simp: prefix_def)
      then have "c # cs = [] @ t @ r" by simp
      then show ?thesis by blast
    next
      case 2
      with Cons.IH obtain p r where "cs = p @ t @ r" by blast
      then have "c # cs = (c # p) @ t @ r" by simp
      then show ?thesis by blast
    qed
  next
    assume "\<exists>p r. c # cs = p @ t @ r"
    then obtain p r where eq: "c # cs = p @ t @ r" by blast
    show "str_includes (c # cs) t"
    proof (cases p)
      case Nil
      with eq have "prefix t (c # cs)" by (simp add: prefix_def)
      then show ?thesis by simp
    next
      case (Cons d p')
      with eq have "cs = p' @ t @ r" by simp
      with Cons.IH have "str_includes cs t" by blast
      then show ?thesis by simp
    qed
  qed
qed

lemma str_includes_longer:
  "str_includes s (t @ u) \<Longrightarrow> str_includes s t"
proof -
  assume "str_includes s (t @ u)"
  then obtain p r where "s = p @ (t @ u) @ r" unfolding str_includes_iff by blast
  then have "s = p @ t @ (u @ r)" by simp
  then show ?thesis unfolding str_includes_iff by blast
qed

lemma before_first_absent: "t \<noteq> [] \<Longrightarrow> \<not> str_includes s t \<Longrightarrow> before_first s t = s"
  by (induction s) (auto split: if_splits)

lemma str_split_from_first:
  "sep \<noteq> [] \<Longrightarrow>
   str_split_from sep acc s =
     (if str_includes s sep
      then (acc @ before_first s sep) # str_split_from sep [] (after_first s sep)
      else [acc @ s])"
proof (induction s arbitrary: acc)
  case Nil
  then show ?case by simp
next
  case (Cons c cs)
  show ?case
  proof (cases "prefix sep (c # cs)")
    case True
    with Cons.prems show ?thesis by simp
  next
    case False
    with Cons.prems Cons.IH[OF Cons.prems, of "acc @ [c]"] show ?thesis by simp
  qed
qed

lemma str_split_from_hd:
  "sep \<noteq> [] \<Longrightarrow> \<exists>rest. str_split_from sep [] s = before_first s sep # rest"
  using str_split_from_first[of sep "[]" s] before_first_absent[of sep s]
  by (cases "str_includes s sep") auto

lemma str_split_first_two:
  assumes "sep \<noteq> []" "str_includes s sep"
  shows "\<exists>rest. str_split s sep
           = before_first s sep # before_first (after_first s sep) sep # rest"
proof -
  from assms have "str_split s sep
      = before_first s sep # str_split_from sep [] (after_first s sep)"
    by (simp add: str_split_def str_split_from_first[of sep "[]" s])
  moreover from str_split_from_hd[OF assms(1), of "after_first s sep"]
  obtain rest where "str_split_from sep [] (after_first s sep)
      = before_first (after_first s sep) sep # rest" by blast
  ultimately show ?thesis by simp
qed

subsection \<open>The operator table\<close>

lemma find_operator_SomeD:
  "find_operator condition = Some (op, func) \<Longrightarrow> str_includes condition op \<and> op \<noteq> []"
  by (auto simp: find_operator_def operators_def split: if_splits)


text \<open>
  What the code takes as operands: the first two parts of \<open>condition.split(op)\<close>, that
  is the text before the first occurrence of the token and the text between the first
  occurrence and the next one.
\<close>

lemma condition_result_first_two_parts:
  assumes "find_operator condition = Some (op, func)"
  shows "condition_result eng data condition
           = func eng (parse_operand eng data (before_first condition op))
                      (parse_operand eng data (before_first (after_first condition op) op))"
proof -
  from find_operator_SomeD[OF assms] have inc: "str_includes condition op" and ne: "op \<noteq> []"
    by simp_all
  from str_split_first_two[OF ne inc] obtain rest where
    "str_split condition op
       = before_first condition op # before_first (after_first condition op) op # rest"
    by blast
  with assms show ?thesis by (simp add: condition_result_def)
qed

text \<open>
  The entries \<open>>=\<close> and \<open><=\<close> of the table are never the ones found: a condition that
  includes one of them includes \<open>>\<close> or \<open><\<close>, which the table lists before them.
\<close>

lemma find_operator_never_ge_le:
  "find_operator condition = Some (op, func) \<Longrightarrow> op \<noteq> ''>='' \<and> op \<noteq> ''<=''"
  using str_includes_longer[of condition "''>''" "''=''"]
        str_includes_longer[of condition "''<''" "''=''"]
  by (auto simp: find_operator_def operators_def split: if_splits)

subsection \<open>The path resolver of \<open>src/index.ts\<close>\<close>

lemma getValueByPath_step_own:
  "getValueByPath_step eng ob key = v \<Longrightarrow> v \<noteq> JUndefined \<Longrightarrow> own_property ob key = Some v"
  by (auto simp: getValueByPath_step_def hasOwnProperty_def js_get_def
           split: if_splits option.splits)

lemma foldl_step_undefined:
  "foldl (getValueByPath_step eng) JUndefined keys = JUndefined"
  by (induction keys) (simp_all add: getValueByPath_step_def)

lemma foldl_step_own:
  "foldl (getValueByPath_step eng) ob keys = v \<Longrightarrow> v \<noteq> JUndefined
   \<Longrightarrow> own_path ob keys = Some v"
proof (induction keys arbitrary: ob)
  case Nil
  then show ?case by simp
next
  case (Cons key keys)
  let ?s = "getValueByPath_step eng ob key"
  have "?s \<noteq> JUndefined"
  proof
    assume "?s = JUndefined"
    with Cons.prems(1) have "v = JUndefined" by (simp add: foldl_step_undefined)
    with Cons.prems(2) show False by simp
  qed
  then have "own_property ob key = Some ?s" by (rule getValueByPath_step_own[OF refl])
  moreover from Cons.prems have "own_path ?s keys = Some v" by (intro Cons.IH) simp_all
  ultimately show ?case by simp
qed

text \<open>
  In \<open>src/index.ts\<close> a result other than \<open>undefined\<close> is reached through own properties
  only, and the result does not depend on what the prototype chain holds.
\<close>

lemma getValueByPath_own_properties_only:
  "getValueByPath eng obj path = v \<Longrightarrow> v \<noteq> JUndefined
   \<Longrightarrow> own_path obj (str_split path ''.'') = Some v"
proof -
  assume r: "getValueByPath eng obj path = v" and d: "v \<noteq> JUndefined"
  then have "foldl (getValueByPath_step eng) obj (str_split path ''.'') = v"
    by (auto simp: getValueByPath_def split: if_splits)
  then show ?thesis using d by (rule foldl_step_own)
qed

lemma getValueByPath_engine_independent:
  "getValueByPath eng obj path = getValueByPath eng' obj path"
proof -
  have "getValueByPath_step eng = getValueByPath_step eng'"
    by (auto simp: fun_eq_iff getValueByPath_step_def hasOwnProperty_def js_get_def
             split: option.splits)
  then show ?thesis by (simp add: getValueByPath_def)
qed

lemma foldl_step_forbidden:
  "list_ex forbidden_key keys \<Longrightarrow> foldl (getValueByPath_step eng) ob keys = JUndefined"
proof (induction keys arbitrary: ob)
  case Nil
  then show ?case by simp
next
  case (Cons key keys)
  show ?case
  proof (cases "forbidden_key key")
    case True
    then have "getValueByPath_step eng ob key = JUndefined"
      by (auto simp: forbidden_key_def getValueByPath_step_def)
    then show ?thesis by (simp add: foldl_step_undefined)
  next
    case False
    with Cons.prems have "list_ex forbidden_key keys" by simp
    then show ?thesis by (simp add: Cons.IH)
  qed
qed

text \<open>
  In \<open>src/index.ts\<close> a path with a character outside \<open>[A-Za-z0-9_.]\<close>, with an empty
  segment or with a blocked segment resolves to \<open>undefined\<close>, whatever the root.
\<close>

lemma getValueByPath_rejects_bad_path:
  "\<not> list_all is_path_char path \<or> list_ex forbidden_key (str_split path ''.'')
   \<Longrightarrow> getValueByPath eng obj path = JUndefined"
  by (auto simp: getValueByPath_def path_re_def foldl_step_forbidden)

subsection \<open>The scan of a template\<close>

lemma placeholder_match_no_dollar:
  "c \<noteq> CHR ''$'' \<Longrightarrow> placeholder_match cls (c # cs) = None"
  by (simp add: placeholder_match_def split: list.splits)

lemma replace_all_prefix:
  "CHR ''$'' \<notin> set pre \<Longrightarrow>
   replace_all cls f (pre @ s) = bind_exn (replace_all cls f s) (\<lambda>t. Inr (pre @ t))"
proof (induction pre)
  case Nil
  show ?case by (simp add: bind_exn_return)
next
  case (Cons c pre)
  from Cons.prems have "c \<noteq> CHR ''$''" by auto
  then have "placeholder_match cls (c # pre @ s) = None"
    by (rule placeholder_match_no_dollar)
  with Cons show ?case by (simp add: bind_exn_assoc)
qed

lemma placeholder_match_here:
  assumes "expr \<noteq> []" "list_all cls expr" "\<not> cls (CHR ''}'')"
  shows "placeholder_match cls (''${'' @ expr @ ''}'' @ post) = Some (expr, post)"
proof -
  from assms(2) have all: "\<And>x. x \<in> set expr \<Longrightarrow> cls x" by (simp add: list_all_iff)
  from all assms(3) have "takeWhile cls (expr @ CHR ''}'' # post) = expr"
    by (simp add: takeWhile_append2)
  moreover from all assms(3) have "dropWhile cls (expr @ CHR ''}'' # post) = CHR ''}'' # post"
    by (simp add: dropWhile_append2)
  ultimately show ?thesis using assms(1) by (simp add: placeholder_match_def)
qed

lemma replace_all_placeholder:
  assumes "expr \<noteq> []" "list_all cls expr" "\<not> cls (CHR ''}'')"
  shows "replace_all cls f (''${'' @ expr @ ''}'' @ post)
           = bind_exn (f expr) (\<lambda>r. bind_exn (replace_all cls f post) (\<lambda>t. Inr (r @ t)))"
  using placeholder_match_here[OF assms, of post] by simp

lemma replace_all_single_pass:
  assumes "CHR ''$'' \<notin> set pre" "expr \<noteq> []" "list_all cls expr" "\<not> cls (CHR ''}'')"
  shows "replace_all cls f (pre @ ''${'' @ expr @ ''}'' @ post)
           = bind_exn (f expr)
               (\<lambda>r. bind_exn (replace_all cls f post) (\<lambda>t. Inr (pre @ r @ t)))"
  by (simp only: replace_all_prefix[OF assms(1)] replace_all_placeholder[OF assms(2-4)])
     (simp add: bind_exn_assoc)

lemma replace_all_render_segments:
  "replace_all cls f template = render_segments f (segments cls template)"
proof (induction cls f template rule: replace_all.induct)
  case (1 cls f)
  show ?case by simp
next
  case (2 cls f c cs)
  show ?case
  proof (cases "placeholder_match cls (c # cs)")
    case None
    then have "replace_all cls f cs = render_segments f (segments cls cs)"
      by (rule "2.IH")
    with None show ?thesis by simp
  next
    case (Some m)
    obtain expr rest where m: "m = (expr, rest)" by (cases m)
    from Some m have "replace_all cls f rest = render_segments f (segments cls rest)"
      by (intro "2.IH") simp_all
    with Some m show ?thesis by simp
  qed
qed

subsection \<open>The rule mapper\<close>

lemma render_optional_Inr:
  "render_optional eng field data = Inr r \<Longrightarrow>
   (case field of
      None \<Rightarrow> r = None
    | Some template \<Rightarrow>
        if template = [] then r = None
        else (case replaceTemplateVars eng template data of
                Inl e \<Rightarrow> False
              | Inr x \<Rightarrow> r = Some x))"
  by (auto simp: render_optional_def bind_exn_def split: option.splits sum.splits if_splits)

lemma render_optional_simple_Inr:
  "render_optional_simple eng field data = Inr r \<Longrightarrow>
   (case field of
      None \<Rightarrow> r = None
    | Some template \<Rightarrow>
        if template = [] then r = None
        else (case replaceTemplateVars_simple eng template data of
                Inl e \<Rightarrow> False
              | Inr x \<Rightarrow> r = Some x))"
  by (auto simp: render_optional_simple_def bind_exn_def
           split: option.splits sum.splits if_splits)

lemma map_of_defined_entries:
  "map_of (defined_entries
     [(''title'', Some t), (''body'', Some b), (''group'', g),
      (''icon'', i), (''url'', u), (''sound'', s)]) =
   [''title'' \<mapsto> t, ''body'' \<mapsto> b]
    ++ (case g of None \<Rightarrow> Map.empty | Some x \<Rightarrow> [''group'' \<mapsto> x])
    ++ (case i of None \<Rightarrow> Map.empty | Some x \<Rightarrow> [''icon'' \<mapsto> x])
    ++ (case u of None \<Rightarrow> Map.empty | Some x \<Rightarrow> [''url'' \<mapsto> x])
    ++ (case s of None \<Rightarrow> Map.empty | Some x \<Rightarrow> [''sound'' \<mapsto> x])"
  by (cases g; cases i; cases u; cases s) (auto simp: fun_eq_iff map_add_def)

lemma map_of_defined_entries_optional:
  assumes "params = defined_entries
              [(''title'', Some t), (''body'', Some b), (''group'', g),
               (''icon'', i), (''url'', u), (''sound'', s)]"
  shows "map_of params ''group'' = g" and "map_of params ''icon'' = i"
    and "map_of params ''url'' = u" and "map_of params ''sound'' = s"
  unfolding assms map_of_defined_entries
  by (cases g; cases i; cases u; cases s; simp add: map_add_def)+

lemma barkParams_InrD:
  assumes "barkParams eng rule data = Inr params"
  shows "\<exists>t b g i u s.
           render_optional eng (group (mapping rule)) data = Inr g
         \<and> render_optional eng (icon (mapping rule)) data = Inr i
         \<and> render_optional eng (url (mapping rule)) data = Inr u
         \<and> render_optional eng (sound (mapping rule)) data = Inr s
         \<and> params = defined_entries
              [(''title'', Some t), (''body'', Some b), (''group'', g),
               (''icon'', i), (''url'', u), (''sound'', s)]"
  using assms unfolding barkParams_def bind_exn_eq_Inr by blast

lemma barkParams_simple_InrD:
  assumes "barkParams_simple eng rule data = Inr params"
  shows "\<exists>t b g i u.
           render_optional_simple eng (group (mapping rule)) data = Inr g
         \<and> render_optional_simple eng (icon (mapping rule)) data = Inr i
         \<and> render_optional_simple eng (url (mapping rule)) data = Inr u
         \<and> params = defined_entries
              [(''title'', Some t), (''body'', Some b), (''group'', g),
               (''icon'', i), (''url'', u), (''sound'', sound (mapping rule))]"
  using assms unfolding barkParams_simple_def bind_exn_eq_Inr by blast

text \<open>
  The simpler variant passes \<open>sound\<close> on as the rule has it, without rendering it, and
  keeps it when it is the empty string.
\<close>

lemma barkParams_simple_sound:
  "barkParams_simple eng rule data = Inr params
   \<Longrightarrow> map_of params ''sound'' = sound (mapping rule)"
  using barkParams_simple_InrD[of eng rule data params]
        map_of_defined_entries_optional(4)
  by blast

subsection \<open>The endpoint \<open>POST /rules\<close>\<close>

text \<open>
  A rule without \<open>id\<close>, \<open>name\<close>, \<open>mapping\<close> or \<open>barkUrl\<close> is answered with status 400 and
  the store is as before; and whenever the answer is not 200 the store is as before.
\<close>

lemma post_rules_missing_field_rejected:
  assumes "rule \<noteq> JNull" "rule \<noteq> JUndefined"
    and "\<not> truthy (js_get eng rule ''id'') \<or> \<not> truthy (js_get eng rule ''name'')
       \<or> \<not> truthy (js_get eng rule ''mapping'') \<or> \<not> truthy (js_get eng rule ''barkUrl'')"
  shows "post_rules eng (Inr rule) store
           = (JsonResponse 400 [(''error'', JStr ''Missing required fields'')], store)"
  using assms by (auto simp: post_rules_def post_rules_try_def get_property_def)

lemma post_rules_try_status:
  "post_rules_try eng request store = Inr (JsonResponse status b, store') \<Longrightarrow> status = 200"
  by (auto simp: post_rules_try_def bind_exn_eq_Inr split: if_splits)

lemma post_rules_error_keeps_store:
  "fst (post_rules eng request store) = JsonResponse status b \<Longrightarrow> status \<noteq> 200
   \<Longrightarrow> snd (post_rules eng request store) = store"
  by (cases "post_rules_try eng request store")
     (auto simp: post_rules_def dest: post_rules_try_status)

section \<open>The claims\<close>

text \<open>
  C1. The claim: a create-or-update request whose rule misses \<open>id\<close>, \<open>name\<close>,
  \<open>mapping.title\<close>, \<open>mapping.body\<close> or \<open>barkUrl\<close> is rejected with a client error and
  nothing is stored. The handler tests \<open>id\<close>, \<open>name\<close>, \<open>mapping\<close> and \<open>barkUrl\<close> only: a
  rule whose mapping has neither \<open>title\<close> nor \<open>body\<close> is answered with status 200 and is
  stored under its key.
\<close>

theorem post_rules_saves_rule_without_title_and_body:
  "fst (post_rules example_engine (Inr rule_without_templates) Map.empty)
     = JsonResponse 200 [(''message'', JStr ''Rule saved successfully''), (''id'', JStr ''r1'')]
   \<and> snd (post_rules example_engine (Inr rule_without_templates) Map.empty) ''rule:r1''
     = Some rule_without_templates"
  by code_simp

text \<open>
  C2. The claim: operator detection tries \<open>>=\<close> before \<open>>\<close> and \<open><=\<close> before \<open><\<close>, so that
  \<open>n >= 10\<close> is split on \<open>>=\<close>. The table lists \<open>>\<close> and \<open><\<close> first: in \<open>n >= 10\<close> the
  operator found is \<open>>\<close> and the parts are \<open>n \<close> and \<open>= 10\<close>; with \<open>a = 2\<close> and \<open>b = 1\<close>
  the expression \<open>a >= b ? 'yes' : 'no'\<close> evaluates to \<open>no\<close>, as \<open>2 > "= b"\<close> is false.
\<close>

theorem find_operator_takes_gt_in_ge_condition:
  "map_option fst (find_operator ''n >= 10'') = Some ''>''
   \<and> str_split ''n >= 10'' ''>'' = [''n '', ''= 10'']
   \<and> evaluateExpression example_engine (''a >= b ? 'yes' : 'no'' @ [CHR 0x27]) example_payload
       = Inr (JStr ''no'')"
  by code_simp

text \<open>
  C3, as amended. When the rule mapper of \<open>src/index.ts\<close> returns, each of the keys
  \<open>group\<close>, \<open>icon\<close>, \<open>url\<close> and \<open>sound\<close> is in its output exactly when the rule defines the
  field as a non-empty string, and its value is then the rendering of the field's
  template against the payload, kept also when that rendering is empty. The simpler variant
  does the same for \<open>group\<close>, \<open>icon\<close> and \<open>url\<close>.
\<close>

theorem barkParams_optional_keys:
  "(barkParams eng rule data = Inr params \<longrightarrow>
      optional_param (\<lambda>t. replaceTemplateVars eng t data) (group (mapping rule)) params ''group''
    \<and> optional_param (\<lambda>t. replaceTemplateVars eng t data) (icon (mapping rule)) params ''icon''
    \<and> optional_param (\<lambda>t. replaceTemplateVars eng t data) (url (mapping rule)) params ''url''
    \<and> optional_param (\<lambda>t. replaceTemplateVars eng t data) (sound (mapping rule)) params ''sound'')
   \<and> (barkParams_simple eng rule data = Inr params \<longrightarrow>
      optional_param (\<lambda>t. replaceTemplateVars_simple eng t data) (group (mapping rule)) params ''group''
    \<and> optional_param (\<lambda>t. replaceTemplateVars_simple eng t data) (icon (mapping rule)) params ''icon''
    \<and> optional_param (\<lambda>t. replaceTemplateVars_simple eng t data) (url (mapping rule)) params ''url'')"
proof (intro conjI impI)
  assume a: "barkParams eng rule data = Inr params"
  from barkParams_InrD[OF a] obtain t b g i u s where
    g: "render_optional eng (group (mapping rule)) data = Inr g" and
    i: "render_optional eng (icon (mapping rule)) data = Inr i" and
    u: "render_optional eng (url (mapping rule)) data = Inr u" and
    s: "render_optional eng (sound (mapping rule)) data = Inr s" and
    p: "params = defined_entries
              [(''title'', Some t), (''body'', Some b), (''group'', g),
               (''icon'', i), (''url'', u), (''sound'', s)]"
    by blast
  note m = map_of_defined_entries_optional[OF p]
  show "optional_param (\<lambda>t. replaceTemplateVars eng t data) (group (mapping rule)) params ''group''"
    using render_optional_Inr[OF g] unfolding optional_param_def m
    by (auto split: option.splits sum.splits if_splits)
  show "optional_param (\<lambda>t. replaceTemplateVars eng t data) (icon (mapping rule)) params ''icon''"
    using render_optional_Inr[OF i] unfolding optional_param_def m
    by (auto split: option.splits sum.splits if_splits)
  show "optional_param (\<lambda>t. replaceTemplateVars eng t data) (url (mapping rule)) params ''url''"
    using render_optional_Inr[OF u] unfolding optional_param_def m
    by (auto split: option.splits sum.splits if_splits)
  show "optional_param (\<lambda>t. replaceTemplateVars eng t data) (sound (mapping rule)) params ''sound''"
    using render_optional_Inr[OF s] unfolding optional_param_def m
    by (auto split: option.splits sum.splits if_splits)
next
  assume a: "barkParams_simple eng rule data = Inr params"
  from barkParams_simple_InrD[OF a] obtain t b g i u where
    g: "render_optional_simple eng (group (mapping rule)) data = Inr g" and
    i: "render_optional_simple eng (icon (mapping rule)) data = Inr i" and
    u: "render_optional_simple eng (url (mapping rule)) data = Inr u" and
    p: "params = defined_entries
              [(''title'', Some t), (''body'', Some b), (''group'', g),
               (''icon'', i), (''url'', u), (''sound'', sound (mapping rule))]"
    by blast
  note m = map_of_defined_entries_optional[OF p]
  show "optional_param (\<lambda>t. replaceTemplateVars_simple eng t data) (group (mapping rule)) params ''group''"
    using render_optional_simple_Inr[OF g] unfolding optional_param_def m
    by (auto split: option.splits sum.splits if_splits)
  show "optional_param (\<lambda>t. replaceTemplateVars_simple eng t data) (icon (mapping rule)) params ''icon''"
    using render_optional_simple_Inr[OF i] unfolding optional_param_def m
    by (auto split: option.splits sum.splits if_splits)
  show "optional_param (\<lambda>t. replaceTemplateVars_simple eng t data) (url (mapping rule)) params ''url''"
    using render_optional_simple_Inr[OF u] unfolding optional_param_def m
    by (auto split: option.splits sum.splits if_splits)
qed

text \<open>
  The example rule: its group is rendered, its url is kept with the empty rendering of
  \<open>${missing}\<close>, and its sound, the empty string, and its icon, which it does not
  define, are left out.
\<close>

theorem barkParams_optional_keys_witness:
  "barkParams example_engine example_rule example_payload
     = Inr [(''title'', ''Hi 42''), (''body'', ''B''), (''group'', ''team 2''), (''url'', [])]
   \<and> optional_param (\<lambda>t. replaceTemplateVars example_engine t example_payload)
        (group (mapping example_rule))
        [(''title'', ''Hi 42''), (''body'', ''B''), (''group'', ''team 2''), (''url'', [])] ''group''
   \<and> optional_param (\<lambda>t. replaceTemplateVars example_engine t example_payload)
        (url (mapping example_rule))
        [(''title'', ''Hi 42''), (''body'', ''B''), (''group'', ''team 2''), (''url'', [])] ''url''
   \<and> optional_param (\<lambda>t. replaceTemplateVars example_engine t example_payload)
        (sound (mapping example_rule))
        [(''title'', ''Hi 42''), (''body'', ''B''), (''group'', ''team 2''), (''url'', [])] ''sound''"
proof -
  have h: "barkParams example_engine example_rule example_payload
     = Inr [(''title'', ''Hi 42''), (''body'', ''B''), (''group'', ''team 2''), (''url'', [])]"
    by code_simp
  from barkParams_optional_keys[of example_engine example_rule example_payload
      "[(''title'', ''Hi 42''), (''body'', ''B''), (''group'', ''team 2''), (''url'', [])]"] h
  show ?thesis by blast
qed

text \<open>
  The claim as stated fails for a field that the rule defines as the empty string: the
  rule below defines \<open>group\<close>, and the output has no such key.
\<close>

theorem barkParams_empty_template_counterexample:
  "group (mapping (example_rule \<lparr> mapping := (mapping example_rule) \<lparr> group := Some [] \<rparr> \<rparr>)) = Some []
   \<and> barkParams example_engine
        (example_rule \<lparr> mapping := (mapping example_rule) \<lparr> group := Some [] \<rparr> \<rparr>)
        example_payload
       = Inr [(''title'', ''Hi 42''), (''body'', ''B''), (''url'', [])]"
  by code_simp

text \<open>
  C4. The claim: the path resolver never returns a value that is reachable only through
  the prototype chain, and \<open>resolvePath({}, "constructor")\<close> is undefined. The resolver of
  the simpler variant reads \<open>o[key]\<close> without the own-property test of \<open>src/index.ts\<close>:
  on the empty object and the path \<open>constructor\<close> it returns the inherited function
  \<open>Object\<close>.
\<close>

theorem getValueByPath_simple_returns_inherited_value:
  "getValueByPath_simple example_engine (JObj 0 []) ''constructor'' = JBuiltin ''Object''
   \<and> own_property (JObj 0 []) ''constructor'' = None
   \<and> getValueByPath example_engine (JObj 0 []) ''constructor'' = JUndefined"
  by code_simp

text \<open>
  C5. The claim: a path with a character outside \<open>[A-Za-z0-9_.]\<close>, with an empty segment
  or with a segment \<open>__proto__\<close>, \<open>constructor\<close> or \<open>prototype\<close> resolves to undefined. The
  resolver of the simpler variant has none of the three guards of \<open>src/index.ts\<close>: it
  resolves the path \<open>a-b\<close>, the path \<open>a.\<close> with its empty segment, and the path
  \<open>constructor\<close> to the values the payload holds under these keys.
\<close>

theorem getValueByPath_simple_resolves_bad_paths:
  "getValueByPath_simple example_engine (JObj 0 [(''a-b'', JNum (Fin 1))]) ''a-b'' = JNum (Fin 1)
   \<and> getValueByPath_simple example_engine (JObj 0 [(''a'', JObj 1 [([], JNum (Fin 1))])]) ''a.''
       = JNum (Fin 1)
   \<and> getValueByPath_simple example_engine (JObj 0 [(''constructor'', JStr ''acme'')]) ''constructor''
       = JStr ''acme''"
  by code_simp

text \<open>
  C6. The claim: the condition is split at the first occurrence of the operator token, so
  that the right operand is the entire remainder after it. The code takes the first two
  parts of \<open>condition.split(op)\<close>, which cuts at every occurrence. In
  \<open>sig == 'dGVzdA=='\<close> the remainder after the first \<open>==\<close> is the quoted literal, and the
  split cuts that literal at its own \<open>==\<close>: the right operand is the opaque text
  \<open>'dGVzdA\<close>, and with \<open>sig\<close> the text \<open>dGVzdA==\<close> the expression
  \<open>sig == 'dGVzdA==' ? 'ok' : 'bad'\<close> evaluates to \<open>bad\<close>, where the comparison with the
  whole remainder is true.
\<close>

theorem condition_split_cuts_quoted_operand:
  "map_option fst (find_operator signature_condition) = Some ''==''
   \<and> after_first signature_condition ''=='' = '' 'dGVzdA=='' @ [CHR 0x27]
   \<and> str_split signature_condition ''=='' = [''sig '', '' 'dGVzdA'', [CHR 0x27]]
   \<and> parse_operand example_engine signature_payload '' 'dGVzdA'' = JStr (CHR 0x27 # ''dGVzdA'')
   \<and> evaluateExpression example_engine
        (signature_condition @ '' ? 'ok' : 'bad'' @ [CHR 0x27]) signature_payload
       = Inr (JStr ''bad'')
   \<and> op_eq example_engine
        (parse_operand example_engine signature_payload (before_first signature_condition ''==''))
        (parse_operand example_engine signature_payload (after_first signature_condition ''==''))
       = Inr (JBool True)"
  by code_simp



text \<open>
  C8. For every expression and every data value \<open>evaluateExpression\<close> returns a value and
  raises nothing: an exception raised inside its \<open>try\<close> block is caught and the function
  returns the empty string.
\<close>

theorem evaluateExpression_never_raises:
  "(\<exists>v. evaluateExpression eng expression data = Inr v)
   \<and> (\<forall>error. evaluateExpression_try eng expression data = Inl error
        \<longrightarrow> evaluateExpression eng expression data = Inr (JStr []))"
  by (simp add: evaluateExpression_def split: sum.splits)

text \<open>
  An exception does occur inside the block: comparing with \<open>>\<close> an object whose own
  property \<open>toString\<close> is no function raises a TypeError, and the evaluator returns the
  empty string.
\<close>

theorem evaluateExpression_never_raises_witness:
  "evaluateExpression_try example_engine (''a > b ? 'x' : 'y'' @ [CHR 0x27])
       (JObj 0 [(''a'', JObj 1 [(''toString'', JNum (Fin 1))]), (''b'', JNum (Fin 1))])
     = Inl (TypeError ''Cannot convert object to primitive value'')
   \<and> evaluateExpression example_engine (''a > b ? 'x' : 'y'' @ [CHR 0x27])
       (JObj 0 [(''a'', JObj 1 [(''toString'', JNum (Fin 1))]), (''b'', JNum (Fin 1))])
     = Inr (JStr [])"
proof -
  have t: "evaluateExpression_try example_engine (''a > b ? 'x' : 'y'' @ [CHR 0x27])
       (JObj 0 [(''a'', JObj 1 [(''toString'', JNum (Fin 1))]), (''b'', JNum (Fin 1))])
     = Inl (TypeError ''Cannot convert object to primitive value'')"
    by code_simp
  from evaluateExpression_never_raises[of example_engine "''a > b ? 'x' : 'y'' @ [CHR 0x27]"
         "JObj 0 [(''a'', JObj 1 [(''toString'', JNum (Fin 1))]), (''b'', JNum (Fin 1))]"] t
  show ?thesis by blast
qed

text \<open>
  C9. Rendering is a single pass over the template, for every template and both variants:
  the output is the template's own segments in their order, the plain text as it is and
  each placeholder replaced by the text computed for it, which goes to the output as it is,
  whatever it contains. The placeholders are those of the template alone, and nothing that
  was put out is scanned. So \<open>${a}\<close> renders to the text \<open>${b}\<close> when \<open>a\<close> is that text,
  and \<open>Cost $5: ${a}\<close> to \<open>Cost $5: ${b}\<close>.
\<close>

theorem replaceTemplateVars_single_pass:
  "replaceTemplateVars eng template data
     = render_segments (template_value eng data) (segments not_brace template)
   \<and> replaceTemplateVars_simple eng template data
     = render_segments (template_value_simple eng data) (segments is_path_char template)
   \<and> replaceTemplateVars eng ''${a}'' (JObj ad [(''a'', JStr ''${b}''), (''b'', JStr ''x'')])
     = Inr ''${b}''
   \<and> replaceTemplateVars_simple eng ''${a}'' (JObj ad [(''a'', JStr ''${b}''), (''b'', JStr ''x'')])
     = Inr ''${b}''
   \<and> replaceTemplateVars eng ''Cost $5: ${a}'' (JObj ad [(''a'', JStr ''${b}''), (''b'', JStr ''x'')])
     = Inr ''Cost $5: ${b}''
   \<and> replaceTemplateVars_simple eng ''Cost $5: ${a}''
       (JObj ad [(''a'', JStr ''${b}''), (''b'', JStr ''x'')])
     = Inr ''Cost $5: ${b}''"
proof -
  have e1: "replaceTemplateVars eng ''${a}'' (JObj ad [(''a'', JStr ''${b}''), (''b'', JStr ''x'')])
     = Inr ''${b}''"
    by code_simp
  have e2: "replaceTemplateVars_simple eng ''${a}''
       (JObj ad [(''a'', JStr ''${b}''), (''b'', JStr ''x'')]) = Inr ''${b}''"
    by code_simp
  have e3: "replaceTemplateVars eng ''Cost $5: ${a}''
       (JObj ad [(''a'', JStr ''${b}''), (''b'', JStr ''x'')]) = Inr ''Cost $5: ${b}''"
    by code_simp
  have e4: "replaceTemplateVars_simple eng ''Cost $5: ${a}''
       (JObj ad [(''a'', JStr ''${b}''), (''b'', JStr ''x'')]) = Inr ''Cost $5: ${b}''"
    by code_simp
  show ?thesis
    using e1 e2 e3 e4
    by (simp add: replaceTemplateVars_def replaceTemplateVars_simple_def
                  replace_all_render_segments)
qed

text \<open>
  The template \<open>$${a} costs $5 ${a}}\<close> has two placeholders and dollar signs and a brace
  that open and close none; the payload's \<open>a\<close> is the text \<open>${b}\<close>, which appears twice
  in the output.
\<close>

theorem replaceTemplateVars_single_pass_witness:
  "segments not_brace ''$${a} costs $5 ${a}}''
     = [Plain ''$'', Hole ''a'', Plain '' '', Plain ''c'', Plain ''o'', Plain ''s'', Plain ''t'',
        Plain ''s'', Plain '' '', Plain ''$'', Plain ''5'', Plain '' '', Hole ''a'', Plain ''}'']
   \<and> template_value example_engine (JObj 0 [(''a'', JStr ''${b}''), (''b'', JStr ''x'')]) ''a''
       = Inr ''${b}''
   \<and> replaceTemplateVars example_engine ''$${a} costs $5 ${a}}''
        (JObj 0 [(''a'', JStr ''${b}''), (''b'', JStr ''x'')]) = Inr ''$${b} costs $5 ${b}}''"
proof -
  have g: "segments not_brace ''$${a} costs $5 ${a}}''
     = [Plain ''$'', Hole ''a'', Plain '' '', Plain ''c'', Plain ''o'', Plain ''s'', Plain ''t'',
        Plain ''s'', Plain '' '', Plain ''$'', Plain ''5'', Plain '' '', Hole ''a'', Plain ''}'']"
    by code_simp
  have t: "template_value example_engine (JObj 0 [(''a'', JStr ''${b}''), (''b'', JStr ''x'')]) ''a''
       = Inr ''${b}''"
    by code_simp
  from replaceTemplateVars_single_pass[of example_engine "''$${a} costs $5 ${a}}''"
         "JObj 0 [(''a'', JStr ''${b}''), (''b'', JStr ''x'')]"]
  have "replaceTemplateVars example_engine ''$${a} costs $5 ${a}}''
        (JObj 0 [(''a'', JStr ''${b}''), (''b'', JStr ''x'')])
      = render_segments
          (template_value example_engine (JObj 0 [(''a'', JStr ''${b}''), (''b'', JStr ''x'')]))
          (segments not_brace ''$${a} costs $5 ${a}}'')"
    by (rule conjunct1)
  with g t show ?thesis by simp
qed

text \<open>
  C10. In \<open>src/index.ts\<close>, when the root is no non-null object (it is undefined, null, a
  boolean, a number or a string), \<open>getValueByPath\<close> returns undefined for every path:
  the first guard returns before any traversal.
\<close>

theorem getValueByPath_non_object_root:
  "obj = JUndefined \<or> obj = JNull \<or> (\<exists>b. obj = JBool b) \<or> (\<exists>n. obj = JNum n)
     \<or> (\<exists>s. obj = JStr s)
   \<Longrightarrow> getValueByPath eng obj path = JUndefined"
  by (auto simp: getValueByPath_def)

text \<open>
  The string \<open>abc\<close> has the own property \<open>length\<close>, and the resolver still returns
  undefined; so it does on null.
\<close>

theorem getValueByPath_non_object_root_witness:
  "own_property (JStr ''abc'') ''length'' = Some (JNum (Fin 3))
   \<and> getValueByPath example_engine (JStr ''abc'') ''length'' = JUndefined
   \<and> getValueByPath example_engine JNull ''a'' = JUndefined"
  using getValueByPath_non_object_root[of "JStr ''abc''" example_engine "''length''"]
        getValueByPath_non_object_root[of JNull example_engine "''a''"]
  by simp

end
